theory Spec2Isabelle
  imports Main "HOL-Library.Char_ord"
begin

section \<open>Strings, characters and Python's string methods\<close>

text \<open>
  The validators of \<^verbatim>\<open>oniongate/validators.py\<close> work on Python \<^verbatim>\<open>str\<close> values. A
  \<^verbatim>\<open>str\<close> is modelled as a \<^typ>\<open>string\<close>: a list of characters, each character one
  code point in the range U+0000 .. U+00FF (\<^verbatim>\<open>len\<close> is \<^const>\<open>length\<close>). On this range
  \<^item> the decimal digits (\<^verbatim>\<open>\d\<close> of \<^verbatim>\<open>re\<close>) are exactly \<^verbatim>\<open>0\<close> .. \<^verbatim>\<open>9\<close>;
  \<^item> \<^verbatim>\<open>str.lower\<close> maps \<^verbatim>\<open>A\<close> .. \<^verbatim>\<open>Z\<close> and U+00C0 .. U+00DE (without U+00D7) 32 code
    points up and leaves every other character alone;
  \<^item> \<^verbatim>\<open>str.upper\<close> maps \<^verbatim>\<open>a\<close> .. \<^verbatim>\<open>z\<close> and U+00E0 .. U+00FE (without U+00F7) 32 code
    points down and writes U+00DF as \<^verbatim>\<open>SS\<close>; the upper-case forms of U+00B5 and U+00FF
    (U+039C and U+0178) lie beyond U+00FF, so a string that holds one of the two has no
    upper-case form in the model;
  \<^item> the white space of \<^verbatim>\<open>str.strip\<close> is U+0009 .. U+000D, U+001C .. U+0020, U+0085 and
    U+00A0.

  Strings with a code point beyond U+00FF are not modelled: for them \<^verbatim>\<open>\d\<close> and the
  case mappings follow the Unicode tables of the interpreter.
\<close>

definition newline :: char where
  "newline = CHR 0x0A"

definition in_range :: "char \<Rightarrow> char \<Rightarrow> char \<Rightarrow> bool" where
  "in_range lo hi c = (lo \<le> c \<and> c \<le> hi)"

definition is_digit :: "char \<Rightarrow> bool" where
  "is_digit c = in_range CHR ''0'' CHR ''9'' c"

definition has_lower_form :: "char \<Rightarrow> bool" where
  "has_lower_form c =
     (in_range CHR ''A'' CHR ''Z'' c \<or> (in_range CHR 0xC0 CHR 0xDE c \<and> c \<noteq> CHR 0xD7))"

definition has_upper_form :: "char \<Rightarrow> bool" where
  "has_upper_form c =
     (in_range CHR ''a'' CHR ''z'' c \<or> (in_range CHR 0xE0 CHR 0xFE c \<and> c \<noteq> CHR 0xF7))"

definition lower_char :: "char \<Rightarrow> char" where
  "lower_char c = (if has_lower_form c then char_of (of_char c + (32::nat)) else c)"

text \<open>
  The upper-case form of one character, as the regular expressions use it to test
  whether a character is in a range: U+00B5 and U+00FF are left alone, their upper-case
  forms being in no range of characters up to U+00FF.
\<close>

definition upper_char :: "char \<Rightarrow> char" where
  "upper_char c = (if has_upper_form c then char_of (of_char c - (32::nat)) else c)"

definition lower :: "string \<Rightarrow> string" where
  "lower s = map lower_char s"




definition startswith :: "string \<Rightarrow> string \<Rightarrow> bool" where
  "startswith s p = (take (length p) s = p)"

text \<open>
  \<^verbatim>\<open>s.split(sep)\<close> for a separator of one character: the pieces between the
  separators, an empty piece included; \<^verbatim>\<open>"".split(".")\<close> is \<^verbatim>\<open>[""]\<close>.
\<close>

fun split :: "char \<Rightarrow> string \<Rightarrow> string list" where
  "split sep [] = [[]]"
| "split sep (c # cs) =
     (if c = sep then [] # split sep cs
      else (case split sep cs of
              [] \<Rightarrow> [[c]]
            | p # ps \<Rightarrow> (c # p) # ps))"


text \<open>\<^verbatim>\<open>str(n)\<close> for an integer, as \<^verbatim>\<open>"{}".format(n)\<close> writes it.\<close>

fun str_nat :: "nat \<Rightarrow> string" where
  "str_nat n =
     (if n < 10 then [''0123456789'' ! n]
      else str_nat (n div 10) @ [''0123456789'' ! (n mod 10)])"

definition str_int :: "int \<Rightarrow> string" where
  "str_int i = (if i < 0 then ''-'' @ str_nat (nat (- i)) else str_nat (nat i))"


section \<open>The regular expressions of the validators\<close>

text \<open>
  The three patterns of the module are sequences of the following atoms of Python's
  \<^verbatim>\<open>re\<close>: a bracketed set with a repetition count (\<^verbatim>\<open>[a-z0-9]{16}\<close>,
  \<^verbatim>\<open>[A-Z\d\-\_]{1,63}\<close>, \<^verbatim>\<open>[\d.]+\<close>), the dot, a literal character, the negative
  lookahead and lookbehind for one character (\<^verbatim>\<open>(?!-)\<close>, \<^verbatim>\<open>(?<!-)\<close>), \<^verbatim>\<open>^\<close> and
  \<^verbatim>\<open>$\<close>.
\<close>

datatype set_item = Literal char | Range char char | Category_Digit

datatype atom =
    In "set_item list" nat "nat option"
  | Any
  | Lit char
  | Not_Ahead char
  | Not_Behind char
  | At_Beginning
  | At_End

fun item_has :: "set_item \<Rightarrow> char \<Rightarrow> bool" where
  "item_has (Literal l) c = (c = l)"
| "item_has (Range lo hi) c = in_range lo hi c"
| "item_has Category_Digit c = is_digit c"

text \<open>
  Membership in a set. Under \<^verbatim>\<open>re.IGNORECASE\<close> the character is lower-cased first, and
  it is in the set when its lower-case or its upper-case form is.
\<close>

definition in_set :: "bool \<Rightarrow> set_item list \<Rightarrow> char \<Rightarrow> bool" where
  "in_set ignorecase items c =
     (if ignorecase
      then list_ex (\<lambda>i. item_has i (lower_char c) \<or> item_has i (upper_char (lower_char c))) items
      else list_ex (\<lambda>i. item_has i c) items)"

text \<open>
  \<open>match_atom ic s a i\<close> lists the positions of \<open>s\<close> at which a match of the atom
  \<open>a\<close> that starts at position \<open>i\<close> can end. A counted set can stop after any number of
  characters between its bounds (the longest first, as the greedy operator tries them).
  The dot matches any character but a newline. Without \<^verbatim>\<open>re.MULTILINE\<close>, \<^verbatim>\<open>$\<close> matches
  at the end of the string and also just before a newline that is the last character.
\<close>

fun match_atom :: "bool \<Rightarrow> string \<Rightarrow> atom \<Rightarrow> nat \<Rightarrow> nat list" where
  "match_atom ic s (In items lo hi) i =
     (let run = length (takeWhile (in_set ic items) (drop i s));
          top = (case hi of None \<Rightarrow> run | Some h \<Rightarrow> min run h)
      in map (\<lambda>k. i + k) (rev [lo ..< Suc top]))"
| "match_atom ic s Any i = (if i < length s \<and> s ! i \<noteq> newline then [Suc i] else [])"
| "match_atom ic s (Lit l) i = (if i < length s \<and> s ! i = l then [Suc i] else [])"
| "match_atom ic s (Not_Ahead l) i = (if i < length s \<and> s ! i = l then [] else [i])"
| "match_atom ic s (Not_Behind l) i = (if 0 < i \<and> s ! (i - 1) = l then [] else [i])"
| "match_atom ic s At_Beginning i = (if i = 0 then [i] else [])"
| "match_atom ic s At_End i =
     (if i = length s \<or> (Suc i = length s \<and> s ! i = newline) then [i] else [])"

fun match_seq :: "bool \<Rightarrow> string \<Rightarrow> atom list \<Rightarrow> nat \<Rightarrow> bool" where
  "match_seq ic s [] i = True"
| "match_seq ic s (a # as) i = list_ex (match_seq ic s as) (match_atom ic s a i)"

text \<open>
  \<^verbatim>\<open>re.match(pattern, s) is not None\<close>: the pattern matches at the start of \<open>s\<close>
  (and need not reach its end).
\<close>

definition re_match :: "bool \<Rightarrow> atom list \<Rightarrow> string \<Rightarrow> bool" where
  "re_match ignorecase pattern s = match_seq ignorecase s pattern 0"


section \<open>The syntax validators\<close>

text \<open>\<^verbatim>\<open>re.match(r"^[a-z0-9]{16}.onion$", onion_address) is not None\<close>\<close>

definition onion_pattern :: "atom list" where
  "onion_pattern =
     [At_Beginning,
      In [Range CHR ''a'' CHR ''z'', Range CHR ''0'' CHR ''9''] 16 (Some 16),
      Any, Lit CHR ''o'', Lit CHR ''n'', Lit CHR ''i'', Lit CHR ''o'', Lit CHR ''n'',
      At_End]"

definition is_onion_address :: "string \<Rightarrow> bool" where
  "is_onion_address onion_address = re_match False onion_pattern onion_address"

text \<open>
  \<^verbatim>\<open>regex = "(?!-)[A-Z\d\-\_]{1,63}(?<!-)$"\<close>, from which \<^verbatim>\<open>regex.replace("\_", "")\<close>
  takes the underscore out of the set when \<^verbatim>\<open>hostname\<close> is true; the pattern is
  compiled with \<^verbatim>\<open>re.IGNORECASE\<close>.
\<close>

definition label_items :: "bool \<Rightarrow> set_item list" where
  "label_items hostname =
     (let items = [Range CHR ''A'' CHR ''Z'', Category_Digit, Literal CHR ''-'', Literal CHR ''_'']
      in if hostname then remove1 (Literal CHR ''_'') items else items)"

definition label_pattern :: "bool \<Rightarrow> atom list" where
  "label_pattern hostname =
     [Not_Ahead CHR ''-'', In (label_items hostname) 1 (Some 63), Not_Behind CHR ''-'', At_End]"

definition is_valid_label :: "string \<Rightarrow> bool \<Rightarrow> bool" where
  "is_valid_label label hostname = re_match True (label_pattern hostname) label"

text \<open>\<^verbatim>\<open>re.match(r"[\d.]+$", hostname)\<close>\<close>

definition numeric_pattern :: "atom list" where
  "numeric_pattern = [In [Category_Digit, Literal CHR ''.''] 1 None, At_End]"

definition is_valid_hostname :: "string \<Rightarrow> bool" where
  "is_valid_hostname hostname =
     (if length hostname > 255 then False
      else if re_match False numeric_pattern hostname then False
      else list_all (\<lambda>x. is_valid_label x True) (split CHR ''.'' hostname))"


section \<open>Configuration, results and errors\<close>

text \<open>
  The validators read their policy from \<^verbatim>\<open>current_app.config\<close>; the model passes the
  configuration as an argument. \<^verbatim>\<open>DOMAIN_BLACKLIST\<close> and \<^verbatim>\<open>ALLOWED_DNS_RECORD_TYPES\<close>
  are collections of strings, used through \<^verbatim>\<open>in\<close> and \<^verbatim>\<open>", ".join\<close>: lists here.
  \<^verbatim>\<open>config.get("FQDN_REGISTRATION_CLOSED")\<close> is read for its truth, an absent key
  being false.
\<close>

record config =
  MIN_SUBDOMAIN_LENGTH :: int
  DOMAIN_BLACKLIST :: "string list"
  SUBDOMAIN_HOST :: string
  FQDN_REGISTRATION_CLOSED :: bool
  ALLOWED_DNS_RECORD_TYPES :: "string list"

text \<open>The dictionary \<^verbatim>\<open>{'label': ..., 'zone': ...}\<close> that \<^verbatim>\<open>domain_name\<close> returns.\<close>

record classification =
  label :: "string option"
  zone :: string

text \<open>Every failure of the module is a \<^verbatim>\<open>ValueError\<close> with a message.\<close>

datatype error = ValueError string


section \<open>The domain name classifier\<close>

definition domain_name :: "config \<Rightarrow> string \<Rightarrow> error + classification" where
  "domain_name cfg domain_name_str =
     (if domain_name_str = [] then Inl (ValueError ''You must specify a domain name'')
      else
        let is_subdomain = CHR ''.'' \<notin> set domain_name_str;
            name = (if last domain_name_str = CHR ''.'' then butlast domain_name_str
                    else domain_name_str);
            is_valid = is_valid_hostname name
        in
          if is_subdomain then
            if \<not> is_valid then
              Inl (ValueError (name @ '' is not a valid sub-domain name.''))
            else if int (length name) < MIN_SUBDOMAIN_LENGTH cfg then
              Inl (ValueError (''The subdomain must be at least ''
                     @ str_int (MIN_SUBDOMAIN_LENGTH cfg) @ '' characters long.''))
            else if name \<in> set (DOMAIN_BLACKLIST cfg) then
              Inl (ValueError ''This subdomain is not allowed'')
            else
              Inr \<lparr>label = Some (lower name), zone = lower (SUBDOMAIN_HOST cfg)\<rparr>
          else
            if \<not> is_valid \<or> CHR ''.'' \<notin> set name then
              Inl (ValueError (name @ '' is not a valid domain name''))
            else if startswith name ''www.'' then
              Inl (ValueError ''The domain name should not include the www. label'')
            else if FQDN_REGISTRATION_CLOSED cfg then
              Inl (ValueError (''It is not possible to register a full domain at the present time. ''
                     @ ''Please choose a sub-domain or contact the administrators''))
            else if name \<in> set (DOMAIN_BLACKLIST cfg) then
              Inl (ValueError ''The domain is not allowed'')
            else
              Inr \<lparr>label = None, zone = lower name\<rparr>)"


section \<open>The record type validator\<close>



section \<open>The IP address validator\<close>

text \<open>
  Modelled from the spec: \<^verbatim>\<open>ip_address\<close> hands its work to Python's standard module
  \<^verbatim>\<open>ipaddress\<close> (\<^verbatim>\<open>ipaddress.ip_address\<close> and the property \<^verbatim>\<open>is_private\<close>), which is
  not among the sources of the repository. The spec asks to parse the string as an
  IPv4 or an IPv6 address and to use the standard definition of a private address for
  the address family; the definitions of this section, up to \<open>is_private\<close>, write that out
  as the module of Python 3.11 has it: the dotted-quad and the colon-hexadecimal
  notations, and the address blocks of the IANA special-purpose registries that the
  module lists as not globally reachable. An address value is its integer, and for IPv6
  the scope identifier after \<^verbatim>\<open>%\<close>.
\<close>

datatype ip = IPv4Address int | IPv6Address int "string option"

definition digit_value :: "char \<Rightarrow> int" where
  "digit_value c =
     (if in_range CHR ''0'' CHR ''9'' c then of_char c - of_char CHR ''0''
      else if in_range CHR ''a'' CHR ''f'' c then of_char c - of_char CHR ''a'' + 10
      else of_char c - of_char CHR ''A'' + 10)"

text \<open>\<^verbatim>\<open>int(s, base)\<close> on a string of digits of the base.\<close>

definition int_of_digits :: "int \<Rightarrow> string \<Rightarrow> int" where
  "int_of_digits base s = foldl (\<lambda>a c. a * base + digit_value c) 0 s"

definition parse_octet :: "string \<Rightarrow> int option" where
  "parse_octet octet_str =
     (if octet_str = [] then None
      else if \<not> list_all is_digit octet_str then None
      else if length octet_str > 3 then None
      else if octet_str \<noteq> ''0'' \<and> hd octet_str = CHR ''0'' then None
      else let octet_int = int_of_digits 10 octet_str
           in if octet_int > 255 then None else Some octet_int)"

definition ipv4_int_from_string :: "string \<Rightarrow> int option" where
  "ipv4_int_from_string ip_str =
     (if ip_str = [] then None
      else let octets = split CHR ''.'' ip_str
           in if length octets \<noteq> 4 then None
              else map_option (foldl (\<lambda>a b. a * 256 + b) 0) (those (map parse_octet octets)))"

definition ipv4_address :: "string \<Rightarrow> int option" where
  "ipv4_address addr_str =
     (if CHR ''/'' \<in> set addr_str then None else ipv4_int_from_string addr_str)"

text \<open>\<^verbatim>\<open>'%x' % n\<close>\<close>

function hex_str :: "int \<Rightarrow> string" where
  "hex_str n =
     (if n < 16 then [''0123456789abcdef'' ! nat n]
      else hex_str (n div 16) @ [''0123456789abcdef'' ! nat (n mod 16)])"
  by pat_completeness auto
termination
  by (relation "measure nat") auto

definition parse_hextet :: "string \<Rightarrow> int option" where
  "parse_hextet hextet_str =
     (if \<not> list_all (\<lambda>c. c \<in> set ''0123456789ABCDEFabcdef'') hextet_str then None
      else if length hextet_str > 4 then None
      else if hextet_str = [] then None
      else Some (int_of_digits 16 hextet_str))"

text \<open>
  The counts \<^verbatim>\<open>(parts_hi, parts_lo, parts_skipped)\<close> of the hextets before the
  \<^verbatim>\<open>::\<close>, after it, and left out by it.
\<close>

definition hextet_counts :: "string list \<Rightarrow> (nat \<times> nat \<times> nat) option" where
  "hextet_counts parts =
     (let skips = filter (\<lambda>i. parts ! i = []) [1 ..< length parts - 1]
      in if length skips > 1 then None
         else if skips \<noteq> [] then
           let skip_index = hd skips;
               hi = skip_index;
               lo = length parts - skip_index - 1
           in if hd parts = [] \<and> hi - 1 \<noteq> 0 then None
              else if last parts = [] \<and> lo - 1 \<noteq> 0 then None
              else let parts_hi = (if hd parts = [] then hi - 1 else hi);
                       parts_lo = (if last parts = [] then lo - 1 else lo)
                   in if 8 < Suc (parts_hi + parts_lo) then None
                      else Some (parts_hi, parts_lo, 8 - (parts_hi + parts_lo))
         else if length parts \<noteq> 8 then None
         else if hd parts = [] then None
         else if last parts = [] then None
         else Some (length parts, 0, 0))"

definition ipv6_int_from_string :: "string \<Rightarrow> int option" where
  "ipv6_int_from_string ip_str =
     (if ip_str = [] then None
      else let parts = split CHR '':'' ip_str
           in if length parts < 3 then None
              else case (if CHR ''.'' \<in> set (last parts)
                         then map_option
                                (\<lambda>ipv4_int. butlast parts
                                   @ [hex_str ((ipv4_int div 65536) mod 65536),
                                      hex_str (ipv4_int mod 65536)])
                                (ipv4_address (last parts))
                         else Some parts) of
                     None \<Rightarrow> None
                   | Some parts \<Rightarrow>
                       if length parts > 9 then None
                       else case hextet_counts parts of
                              None \<Rightarrow> None
                            | Some (parts_hi, parts_lo, parts_skipped) \<Rightarrow>
                                (case (those (map parse_hextet (take parts_hi parts)),
                                       those (map parse_hextet
                                                (drop (length parts - parts_lo) parts))) of
                                   (Some his, Some los) \<Rightarrow>
                                     Some (foldl (\<lambda>a h. a * 65536 + h)
                                             (foldl (\<lambda>a h. a * 65536 + h) 0 his
                                                * 65536 ^ parts_skipped) los)
                                 | _ \<Rightarrow> None))"

text \<open>\<^verbatim>\<open>ip_str.partition('%')\<close>, a scope identifier being neither empty nor holding a \<^verbatim>\<open>%\<close>.\<close>

definition split_scope_id :: "string \<Rightarrow> (string \<times> string option) option" where
  "split_scope_id ip_str =
     (let addr = takeWhile (\<lambda>c. c \<noteq> CHR ''%'') ip_str;
          rest = dropWhile (\<lambda>c. c \<noteq> CHR ''%'') ip_str
      in if rest = [] then Some (addr, None)
         else if tl rest = [] \<or> CHR ''%'' \<in> set (tl rest) then None
         else Some (addr, Some (tl rest)))"

definition ipv6_address :: "string \<Rightarrow> (int \<times> string option) option" where
  "ipv6_address addr_str =
     (if CHR ''/'' \<in> set addr_str then None
      else case split_scope_id addr_str of
             None \<Rightarrow> None
           | Some (addr, scope_id) \<Rightarrow>
               map_option (\<lambda>n. (n, scope_id)) (ipv6_int_from_string addr))"

text \<open>
  \<^verbatim>\<open>repr(s)\<close> of a string, for the message of \<^verbatim>\<open>ipaddress.ip_address\<close>: in single
  quotes, or in double quotes when the string holds a single quote and no double quote;
  the quote and the backslash escaped, and the characters that are not printable
  written as \<^verbatim>\<open>\t\<close>, \<^verbatim>\<open>\n\<close>, \<^verbatim>\<open>\r\<close> or \<^verbatim>\<open>\xhh\<close>.
\<close>

definition is_printable :: "char \<Rightarrow> bool" where
  "is_printable c =
     (in_range CHR 0x20 CHR 0x7E c \<or> (in_range CHR 0xA1 CHR 0xFF c \<and> c \<noteq> CHR 0xAD))"

definition repr_char :: "char \<Rightarrow> char \<Rightarrow> string" where
  "repr_char quote c =
     (if c = quote \<or> c = CHR 0x5C then [CHR 0x5C, c]
      else if c = CHR 0x09 then [CHR 0x5C, CHR ''t'']
      else if c = CHR 0x0A then [CHR 0x5C, CHR ''n'']
      else if c = CHR 0x0D then [CHR 0x5C, CHR ''r'']
      else if is_printable c then [c]
      else [CHR 0x5C, CHR ''x'',
            ''0123456789abcdef'' ! (of_char c div 16), ''0123456789abcdef'' ! (of_char c mod 16)])"

definition repr :: "string \<Rightarrow> string" where
  "repr s =
     (let quote = (if CHR 0x27 \<in> set s \<and> CHR 0x22 \<notin> set s then CHR 0x22 else CHR 0x27)
      in [quote] @ concat (map (repr_char quote) s) @ [quote])"

definition ipaddress_ip_address :: "string \<Rightarrow> error + ip" where
  "ipaddress_ip_address address =
     (case ipv4_address address of
        Some n \<Rightarrow> Inr (IPv4Address n)
      | None \<Rightarrow>
          (case ipv6_address address of
             Some (n, scope_id) \<Rightarrow> Inr (IPv6Address n scope_id)
           | None \<Rightarrow>
               Inl (ValueError (repr address @ '' does not appear to be an IPv4 or IPv6 address''))))"

text \<open>
  A network is its address and its prefix length; an address is in it when the
  address under the netmask is the network's address.
\<close>

definition in_network :: "nat \<Rightarrow> int \<Rightarrow> int \<times> nat \<Rightarrow> bool" where
  "in_network bits n net =
     ((n div 2 ^ (bits - snd net)) * 2 ^ (bits - snd net) = fst net)"

definition ipv4 :: "int \<Rightarrow> int \<Rightarrow> int \<Rightarrow> int \<Rightarrow> int" where
  "ipv4 a b c d = ((a * 256 + b) * 256 + c) * 256 + d"

definition ipv6 :: "int list \<Rightarrow> int" where
  "ipv6 hextets = foldl (\<lambda>a h. a * 65536 + h) 0 hextets"

definition ipv4_private_networks :: "(int \<times> nat) list" where
  "ipv4_private_networks =
     [(ipv4 0 0 0 0, 8), (ipv4 10 0 0 0, 8), (ipv4 127 0 0 0, 8), (ipv4 169 254 0 0, 16),
      (ipv4 172 16 0 0, 12), (ipv4 192 0 0 0, 24), (ipv4 192 0 0 170, 31),
      (ipv4 192 0 2 0, 24), (ipv4 192 168 0 0, 16), (ipv4 198 18 0 0, 15),
      (ipv4 198 51 100 0, 24), (ipv4 203 0 113 0, 24), (ipv4 240 0 0 0, 4),
      (ipv4 255 255 255 255, 32)]"

definition ipv4_private_networks_exceptions :: "(int \<times> nat) list" where
  "ipv4_private_networks_exceptions = [(ipv4 192 0 0 9, 32), (ipv4 192 0 0 10, 32)]"

definition ipv6_private_networks :: "(int \<times> nat) list" where
  "ipv6_private_networks =
     [(ipv6 [0, 0, 0, 0, 0, 0, 0, 1], 128), (ipv6 [0, 0, 0, 0, 0, 0, 0, 0], 128),
      (ipv6 [0, 0, 0, 0, 0, 0xffff, 0, 0], 96), (ipv6 [0x64, 0xff9b, 1, 0, 0, 0, 0, 0], 48),
      (ipv6 [0x100, 0, 0, 0, 0, 0, 0, 0], 64), (ipv6 [0x2001, 0, 0, 0, 0, 0, 0, 0], 23),
      (ipv6 [0x2001, 0xdb8, 0, 0, 0, 0, 0, 0], 32), (ipv6 [0x2002, 0, 0, 0, 0, 0, 0, 0], 16),
      (ipv6 [0xfc00, 0, 0, 0, 0, 0, 0, 0], 7), (ipv6 [0xfe80, 0, 0, 0, 0, 0, 0, 0], 10)]"

definition ipv6_private_networks_exceptions :: "(int \<times> nat) list" where
  "ipv6_private_networks_exceptions =
     [(ipv6 [0x2001, 1, 0, 0, 0, 0, 0, 1], 128), (ipv6 [0x2001, 1, 0, 0, 0, 0, 0, 2], 128),
      (ipv6 [0x2001, 3, 0, 0, 0, 0, 0, 0], 32), (ipv6 [0x2001, 4, 0x112, 0, 0, 0, 0, 0], 48),
      (ipv6 [0x2001, 0x20, 0, 0, 0, 0, 0, 0], 28), (ipv6 [0x2001, 0x30, 0, 0, 0, 0, 0, 0], 28)]"

definition ipv4_is_private :: "int \<Rightarrow> bool" where
  "ipv4_is_private n =
     (list_ex (in_network 32 n) ipv4_private_networks
      \<and> list_all (\<lambda>net. \<not> in_network 32 n net) ipv4_private_networks_exceptions)"

fun is_private :: "ip \<Rightarrow> bool" where
  "is_private (IPv4Address n) = ipv4_is_private n"
| "is_private (IPv6Address n scope_id) =
     (if n div 2 ^ 32 = 0xFFFF then ipv4_is_private (n mod 2 ^ 32)
      else (list_ex (in_network 128 n) ipv6_private_networks
            \<and> list_all (\<lambda>net. \<not> in_network 128 n net) ipv6_private_networks_exceptions))"

text \<open>
  The validator itself, from the source: the error of \<^verbatim>\<open>ipaddress.ip_address\<close>
  passes through, a private address is refused, any other address is returned.
\<close>

definition ip_address :: "string \<Rightarrow> error + ip" where
  "ip_address ip_address_str =
     (case ipaddress_ip_address ip_address_str of
        Inl e \<Rightarrow> Inl e
      | Inr ip \<Rightarrow>
          if is_private ip then Inl (ValueError ''Only public IP addresses are valid'')
          else Inr ip)"


section \<open>Named values for the statements\<close>

text \<open>
  The error that \<^verbatim>\<open>domain_name\<close> raises when the registration of full domains is
  closed (the spec's \<^verbatim>\<open>RegistrationClosed\<close>): in the source a \<^verbatim>\<open>ValueError\<close> like every
  other failure, told apart by its message.
\<close>

definition registration_closed :: error where
  "registration_closed =
     ValueError (''It is not possible to register a full domain at the present time. ''
                   @ ''Please choose a sub-domain or contact the administrators'')"

text \<open>The configuration of the spec's end-to-end scenario, and the same with open registration.\<close>

definition example_config :: config where
  "example_config =
     \<lparr>MIN_SUBDOMAIN_LENGTH = 3, DOMAIN_BLACKLIST = [''www'', ''mail''],
      SUBDOMAIN_HOST = ''example.com'', FQDN_REGISTRATION_CLOSED = True,
      ALLOWED_DNS_RECORD_TYPES = [''A'', ''AAAA'', ''CNAME'']\<rparr>"

definition open_config :: config where
  "open_config = example_config\<lparr>FQDN_REGISTRATION_CLOSED := False\<rparr>"


section \<open>The syntax checks in the words of the specification\<close>

text \<open>
  The specification words the three syntax checks without regular expressions. The
  definitions of this section follow those words, to be compared with the validators
  of the source: a label is valid if it has 1 to 63 characters of \<^verbatim>\<open>[A-Za-z0-9_-]\<close>
  (without the underscore in hostname mode) and neither starts nor ends with a hyphen;
  a hostname is invalid if it is longer than 255 characters or consists of digits and
  dots only, and otherwise valid iff every segment between dots is a valid label, in the
  same words, in hostname mode; an onion address is sixteen lower-case
  alphanumeric characters followed by \<^verbatim>\<open>.onion\<close>, and nothing else.
\<close>

definition is_ascii_alnum :: "char \<Rightarrow> bool" where
  "is_ascii_alnum c =
     (in_range CHR ''a'' CHR ''z'' c \<or> in_range CHR ''A'' CHR ''Z'' c \<or> in_range CHR ''0'' CHR ''9'' c)"

definition label_char :: "bool \<Rightarrow> char \<Rightarrow> bool" where
  "label_char hostname c = (is_ascii_alnum c \<or> c = CHR ''-'' \<or> (\<not> hostname \<and> c = CHR ''_''))"

definition spec_valid_label :: "string \<Rightarrow> bool \<Rightarrow> bool" where
  "spec_valid_label s hostname =
     (1 \<le> length s \<and> length s \<le> 63 \<and> list_all (label_char hostname) s
      \<and> hd s \<noteq> CHR ''-'' \<and> last s \<noteq> CHR ''-'')"

definition is_digit_or_dot :: "char \<Rightarrow> bool" where
  "is_digit_or_dot c = (is_digit c \<or> c = CHR ''.'')"

definition spec_valid_hostname :: "string \<Rightarrow> bool" where
  "spec_valid_hostname s =
     (if length s > 255 then False
      else if list_all is_digit_or_dot s then False
      else list_all (\<lambda>x. spec_valid_label x True) (split CHR ''.'' s))"

definition is_lower_alnum :: "char \<Rightarrow> bool" where
  "is_lower_alnum c = (in_range CHR ''a'' CHR ''z'' c \<or> in_range CHR ''0'' CHR ''9'' c)"

definition spec_onion_address :: "string \<Rightarrow> bool" where
  "spec_onion_address s =
     (length s = 22 \<and> list_all is_lower_alnum (take 16 s) \<and> drop 16 s = ''.onion'')"


section \<open>Auxiliary facts\<close>

lemma split_not_Nil: "split sep s \<noteq> []"
  by (induction s) (auto split: list.splits)

lemma split_not_single_Nil: "s \<noteq> [] \<Longrightarrow> split sep s \<noteq> [[]]"
  using split_not_Nil [of sep "tl s"] by (cases s) (auto split: list.splits)

lemma last_split_sep: "s \<noteq> [] \<Longrightarrow> last s = sep \<Longrightarrow> last (split sep s) = []"
proof (induction s)
  case Nil
  then show ?case by simp
next
  case (Cons c cs)
  show ?case
  proof (cases "cs = []")
    case True
    with Cons.prems show ?thesis by simp
  next
    case False
    with Cons have "last (split sep cs) = []" by simp
    with False show ?thesis
      using split_not_Nil [of sep cs] split_not_single_Nil [of cs sep]
      by (auto split: list.splits)
  qed
qed

lemma empty_label_invalid: "\<not> is_valid_label [] hostname"
  by (simp add: is_valid_label_def re_match_def label_pattern_def)

lemma empty_hostname_invalid: "\<not> is_valid_hostname []"
  by (simp add: is_valid_hostname_def re_match_def numeric_pattern_def empty_label_invalid)

lemma valid_hostname_last:
  assumes "is_valid_hostname s" and "s \<noteq> []"
  shows "last s \<noteq> CHR ''.''"
proof
  assume "last s = CHR ''.''"
  with assms(2) have "last (split CHR ''.'' s) = []"
    by (rule last_split_sep)
  moreover have "last (split CHR ''.'' s) \<in> set (split CHR ''.'' s)"
    using split_not_Nil by simp
  moreover from assms(1) have "\<forall>x \<in> set (split CHR ''.'' s). is_valid_label x True"
    by (simp add: is_valid_hostname_def list_all_iff split: if_splits)
  ultimately show False
    using empty_label_invalid by metis
qed

lemma not_closed_message_sub:
  "name @ '' is not a valid sub-domain name.'' \<noteq>
     ''It is not possible to register a full domain at the present time. Please choose a sub-domain or contact the administrators''"
proof
  assume "name @ '' is not a valid sub-domain name.'' =
     ''It is not possible to register a full domain at the present time. Please choose a sub-domain or contact the administrators''"
  then have "last (name @ '' is not a valid sub-domain name.'') =
     last ''It is not possible to register a full domain at the present time. Please choose a sub-domain or contact the administrators''"
    by (rule arg_cong)
  then show False by simp
qed

lemma not_closed_message_dom:
  "name @ '' is not a valid domain name'' \<noteq>
     ''It is not possible to register a full domain at the present time. Please choose a sub-domain or contact the administrators''"
proof
  assume "name @ '' is not a valid domain name'' =
     ''It is not possible to register a full domain at the present time. Please choose a sub-domain or contact the administrators''"
  then have "last (name @ '' is not a valid domain name'') =
     last ''It is not possible to register a full domain at the present time. Please choose a sub-domain or contact the administrators''"
    by (rule arg_cong)
  then show False by simp
qed

lemma example_config_simps:
  "MIN_SUBDOMAIN_LENGTH example_config = 3"
  "DOMAIN_BLACKLIST example_config = [''www'', ''mail'']"
  "SUBDOMAIN_HOST example_config = ''example.com''"
  "FQDN_REGISTRATION_CLOSED example_config"
  "ALLOWED_DNS_RECORD_TYPES example_config = [''A'', ''AAAA'', ''CNAME'']"
  "MIN_SUBDOMAIN_LENGTH open_config = 3"
  "DOMAIN_BLACKLIST open_config = [''www'', ''mail'']"
  "SUBDOMAIN_HOST open_config = ''example.com''"
  "\<not> FQDN_REGISTRATION_CLOSED open_config"
  by (simp_all add: example_config_def open_config_def)








section \<open>What the regular expressions accept\<close>

text \<open>
  Characters are compared through their code points. Under \<^verbatim>\<open>re.IGNORECASE\<close> the set
  of the label pattern holds the letters of both cases, the digits, the hyphen and,
  outside hostname mode, the underscore, and no character beyond them.
\<close>

lemma in_range_code: "in_range lo hi c \<longleftrightarrow> (of_char lo :: nat) \<le> of_char c \<and> (of_char c :: nat) \<le> of_char hi"
  by (simp add: in_range_def less_eq_char_def)

lemma char_eq_code: "c = d \<longleftrightarrow> (of_char c :: nat) = of_char d"
  by simp

lemma of_char_lower_char:
  "(of_char (lower_char c) :: nat) = (if has_lower_form c then of_char c + 32 else of_char c)"
  by (auto simp: lower_char_def has_lower_form_def in_range_code of_char_of)

lemma of_char_upper_char:
  "(of_char (upper_char c) :: nat) = (if has_upper_form c then of_char c - 32 else of_char c)"
proof -
  have "(of_char c :: nat) < 256" by simp
  then show ?thesis
    by (auto simp: upper_char_def has_upper_form_def in_range_code of_char_of)
qed

lemma has_lower_form_code:
  "has_lower_form c \<longleftrightarrow>
     (65 \<le> (of_char c :: nat) \<and> (of_char c :: nat) \<le> 90) \<or>
     (192 \<le> (of_char c :: nat) \<and> (of_char c :: nat) \<le> 222 \<and> (of_char c :: nat) \<noteq> 215)"
  unfolding has_lower_form_def in_range_code char_eq_code [of c] by simp

lemma has_upper_form_code:
  "has_upper_form c \<longleftrightarrow>
     (97 \<le> (of_char c :: nat) \<and> (of_char c :: nat) \<le> 122) \<or>
     (224 \<le> (of_char c :: nat) \<and> (of_char c :: nat) \<le> 254 \<and> (of_char c :: nat) \<noteq> 247)"
  unfolding has_upper_form_def in_range_code char_eq_code [of c] by simp

lemma label_char_code:
  "label_char hostname c \<longleftrightarrow>
     (97 \<le> (of_char c :: nat) \<and> (of_char c :: nat) \<le> 122) \<or>
     (65 \<le> (of_char c :: nat) \<and> (of_char c :: nat) \<le> 90) \<or>
     (48 \<le> (of_char c :: nat) \<and> (of_char c :: nat) \<le> 57) \<or>
     (of_char c :: nat) = 45 \<or> (\<not> hostname \<and> (of_char c :: nat) = 95)"
  unfolding label_char_def is_ascii_alnum_def in_range_code char_eq_code [of c] by simp

lemma in_set_label_items_code:
  "in_set True (label_items hostname) c \<longleftrightarrow>
     (let d = (of_char (lower_char c) :: nat); u = (of_char (upper_char (lower_char c)) :: nat)
      in (65 \<le> d \<and> d \<le> 90) \<or> (65 \<le> u \<and> u \<le> 90) \<or> (48 \<le> d \<and> d \<le> 57) \<or> (48 \<le> u \<and> u \<le> 57)
         \<or> d = 45 \<or> u = 45 \<or> (\<not> hostname \<and> (d = 95 \<or> u = 95)))"
  unfolding in_set_def label_items_def Let_def
  by (cases hostname)
     (auto simp: is_digit_def in_range_code char_eq_code [of "lower_char c"]
        char_eq_code [of "upper_char (lower_char c)"])

lemma in_set_label_items: "in_set True (label_items hostname) c = label_char hostname c"
proof -
  define n :: nat where "n = of_char c"
  define d :: nat where "d = of_char (lower_char c)"
  define u :: nat where "u = of_char (upper_char (lower_char c))"
  have d: "d = (if (65 \<le> n \<and> n \<le> 90) \<or> (192 \<le> n \<and> n \<le> 222 \<and> n \<noteq> 215) then n + 32 else n)"
    unfolding d_def n_def of_char_lower_char has_lower_form_code ..
  have u: "u = (if (97 \<le> d \<and> d \<le> 122) \<or> (224 \<le> d \<and> d \<le> 254 \<and> d \<noteq> 247) then d - 32 else d)"
    unfolding u_def d_def of_char_upper_char has_upper_form_code ..
  have l: "in_set True (label_items hostname) c \<longleftrightarrow>
     (65 \<le> d \<and> d \<le> 90) \<or> (65 \<le> u \<and> u \<le> 90) \<or> (48 \<le> d \<and> d \<le> 57) \<or> (48 \<le> u \<and> u \<le> 57)
         \<or> d = 45 \<or> u = 45 \<or> (\<not> hostname \<and> (d = 95 \<or> u = 95))"
    unfolding in_set_label_items_code Let_def d_def u_def ..
  have r: "label_char hostname c \<longleftrightarrow>
     (97 \<le> n \<and> n \<le> 122) \<or> (65 \<le> n \<and> n \<le> 90) \<or> (48 \<le> n \<and> n \<le> 57) \<or>
     n = 45 \<or> (\<not> hostname \<and> n = 95)"
    unfolding label_char_code n_def ..
  show ?thesis
    unfolding l r u d by (cases hostname) (simp_all, arith+)
qed

text \<open>
  A counted set that starts at the beginning of the string can stop after \<open>k\<close>
  characters exactly when \<open>k\<close> is within the bounds and the first \<open>k\<close> characters are
  in the set; every other atom has at most one way to match.
\<close>

lemma length_takeWhile_ge:
  "k \<le> length (takeWhile P xs) \<longleftrightarrow> k \<le> length xs \<and> list_all P (take k xs)"
proof (induction xs arbitrary: k)
  case Nil
  then show ?case by simp
next
  case (Cons x xs)
  then show ?case by (cases k) auto
qed

lemma set_match_In:
  "set (match_atom ic s (In items lo hi) 0) =
     {k. lo \<le> k \<and> k \<le> length s \<and> list_all (in_set ic items) (take k s)
          \<and> (case hi of None \<Rightarrow> True | Some h \<Rightarrow> k \<le> h)}"
proof -
  define run where "run = length (takeWhile (in_set ic items) s)"
  define top where "top = (case hi of None \<Rightarrow> run | Some h \<Rightarrow> min run h)"
  have m: "match_atom ic s (In items lo hi) 0 = map (\<lambda>k. 0 + k) (rev [lo ..< Suc top])"
    by (simp only: match_atom.simps Let_def run_def top_def drop_0)
  have "set (map (\<lambda>k. 0 + k) (rev [lo ..< Suc top])) = {k. lo \<le> k \<and> k \<le> top}"
    by auto
  moreover have "k \<le> top \<longleftrightarrow> k \<le> length s \<and> list_all (in_set ic items) (take k s)
          \<and> (case hi of None \<Rightarrow> True | Some h \<Rightarrow> k \<le> h)" for k
    unfolding top_def run_def
    by (cases hi) (auto simp: length_takeWhile_ge)
  ultimately show ?thesis
    unfolding m by simp
qed

lemma list_ex_match_In:
  "list_ex Q (match_atom ic s (In items lo hi) 0) \<longleftrightarrow>
     (\<exists>k. lo \<le> k \<and> k \<le> length s \<and> list_all (in_set ic items) (take k s)
          \<and> (case hi of None \<Rightarrow> True | Some h \<Rightarrow> k \<le> h) \<and> Q k)"
  unfolding list_ex_iff set_match_In by blast

lemma list_ex_match_atoms:
  "list_ex Q (match_atom ic s (Not_Ahead l) i) \<longleftrightarrow> \<not> (i < length s \<and> s ! i = l) \<and> Q i"
  "list_ex Q (match_atom ic s (Not_Behind l) i) \<longleftrightarrow> \<not> (0 < i \<and> s ! (i - 1) = l) \<and> Q i"
  "list_ex Q (match_atom ic s At_End i) \<longleftrightarrow>
     (i = length s \<or> (Suc i = length s \<and> s ! i = newline)) \<and> Q i"
  "list_ex Q (match_atom ic s At_Beginning i) \<longleftrightarrow> i = 0 \<and> Q i"
  "list_ex Q (match_atom ic s Any i) \<longleftrightarrow> i < length s \<and> s ! i \<noteq> newline \<and> Q (Suc i)"
  "list_ex Q (match_atom ic s (Lit l) i) \<longleftrightarrow> i < length s \<and> s ! i = l \<and> Q (Suc i)"
  by auto

text \<open>
  \<^verbatim>\<open>is_valid_label\<close> accepts the labels of the specification and, because \<^verbatim>\<open>$\<close> also
  matches before a final newline, each of them followed by one newline; nothing else.
\<close>

lemma is_valid_label_unfolded:
  "is_valid_label s hostname \<longleftrightarrow>
     \<not> (0 < length s \<and> s ! 0 = CHR ''-'') \<and>
     (\<exists>k. 1 \<le> k \<and> k \<le> length s \<and> list_all (label_char hostname) (take k s) \<and> k \<le> 63
          \<and> \<not> (0 < k \<and> s ! (k - 1) = CHR ''-'')
          \<and> (k = length s \<or> (Suc k = length s \<and> s ! k = newline)))"
  unfolding is_valid_label_def re_match_def label_pattern_def
  by (simp only: match_seq.simps list_ex_match_atoms list_ex_match_In option.case
        in_set_label_items [abs_def] simp_thms)

lemma spec_valid_label_nth:
  "spec_valid_label t hostname \<longleftrightarrow>
     1 \<le> length t \<and> length t \<le> 63 \<and> list_all (label_char hostname) t
       \<and> t ! 0 \<noteq> CHR ''-'' \<and> t ! (length t - 1) \<noteq> CHR ''-''"
proof (cases "t = []")
  case True
  then show ?thesis by (simp add: spec_valid_label_def)
next
  case False
  then show ?thesis
    by (simp add: spec_valid_label_def hd_conv_nth last_conv_nth)
qed

lemma is_valid_label_iff:
  "is_valid_label s hostname \<longleftrightarrow>
     spec_valid_label s hostname \<or> (\<exists>t. s = t @ [newline] \<and> spec_valid_label t hostname)"
proof
  assume "is_valid_label s hostname"
  then obtain k where first: "\<not> (0 < length s \<and> s ! 0 = CHR ''-'')"
    and k: "1 \<le> k" "k \<le> length s" "k \<le> 63"
    and chars: "list_all (label_char hostname) (take k s)"
    and final: "\<not> (0 < k \<and> s ! (k - 1) = CHR ''-'')"
    and stop: "k = length s \<or> (Suc k = length s \<and> s ! k = newline)"
    unfolding is_valid_label_unfolded by blast
  from stop show "spec_valid_label s hostname \<or> (\<exists>t. s = t @ [newline] \<and> spec_valid_label t hostname)"
  proof
    assume "k = length s"
    with first k chars final have "spec_valid_label s hostname"
      unfolding spec_valid_label_nth by auto
    then show ?thesis ..
  next
    assume e: "Suc k = length s \<and> s ! k = newline"
    define t where "t = take k s"
    from e have s: "s = t @ [newline]"
      unfolding t_def by (metis lessI take_Suc_conv_app_nth take_all order_refl)
    from e k have lt: "length t = k"
      unfolding t_def by simp
    from k lt have "t ! 0 = s ! 0" "t ! (length t - 1) = s ! (k - 1)"
      unfolding s by (simp_all add: nth_append)
    with first k chars final lt e have "spec_valid_label t hostname"
      unfolding spec_valid_label_nth t_def by auto
    with s show ?thesis by blast
  qed
next
  assume "spec_valid_label s hostname \<or> (\<exists>t. s = t @ [newline] \<and> spec_valid_label t hostname)"
  then show "is_valid_label s hostname"
  proof
    assume "spec_valid_label s hostname"
    then have "1 \<le> length s \<and> length s \<le> length s \<and> list_all (label_char hostname) (take (length s) s)
        \<and> length s \<le> 63 \<and> \<not> (0 < length s \<and> s ! (length s - 1) = CHR ''-'')
        \<and> (length s = length s \<or> (Suc (length s) = length s \<and> s ! length s = newline))"
      and "\<not> (0 < length s \<and> s ! 0 = CHR ''-'')"
      unfolding spec_valid_label_nth by simp_all
    then show ?thesis
      unfolding is_valid_label_unfolded by blast
  next
    assume "\<exists>t. s = t @ [newline] \<and> spec_valid_label t hostname"
    then obtain t where s: "s = t @ [newline]" and t: "spec_valid_label t hostname"
      by blast
    from t have "1 \<le> length t \<and> length t \<le> length s \<and> list_all (label_char hostname) (take (length t) s)
        \<and> length t \<le> 63 \<and> \<not> (0 < length t \<and> s ! (length t - 1) = CHR ''-'')
        \<and> (length t = length s \<or> (Suc (length t) = length s \<and> s ! length t = newline))"
      and "\<not> (0 < length s \<and> s ! 0 = CHR ''-'')"
      unfolding spec_valid_label_nth s by (auto simp: nth_append newline_def)
    then show ?thesis
      unfolding is_valid_label_unfolded by blast
  qed
qed

text \<open>
  \<^verbatim>\<open>is_onion_address\<close> accepts sixteen lower-case alphanumeric characters, any one
  character but a newline, and \<^verbatim>\<open>onion\<close>, with or without a final newline. The
  addresses of the specification are those among them with a dot at position 16 and no
  final newline.
\<close>

lemma drop_eq_Cons_iff:
  "drop i s = x # xs \<longleftrightarrow> i < length s \<and> s ! i = x \<and> drop (Suc i) s = xs"
proof
  assume a: "drop i s = x # xs"
  then have "i < length s"
    by (metis drop_all list.distinct(1) not_le)
  with a show "i < length s \<and> s ! i = x \<and> drop (Suc i) s = xs"
    using Cons_nth_drop_Suc [of i s] by simp
next
  assume "i < length s \<and> s ! i = x \<and> drop (Suc i) s = xs"
  then show "drop i s = x # xs"
    using Cons_nth_drop_Suc [of i s] by auto
qed

lemma in_set_onion:
  "in_set False [Range CHR ''a'' CHR ''z'', Range CHR ''0'' CHR ''9''] = is_lower_alnum"
  by (rule ext) (simp add: in_set_def is_lower_alnum_def)

lemma is_onion_address_unfolded:
  "is_onion_address s \<longleftrightarrow>
     16 \<le> length s \<and> list_all is_lower_alnum (take 16 s) \<and>
     16 < length s \<and> s ! 16 \<noteq> newline \<and>
     17 < length s \<and> s ! 17 = CHR ''o'' \<and> 18 < length s \<and> s ! 18 = CHR ''n'' \<and>
     19 < length s \<and> s ! 19 = CHR ''i'' \<and> 20 < length s \<and> s ! 20 = CHR ''o'' \<and>
     21 < length s \<and> s ! 21 = CHR ''n'' \<and>
     (22 = length s \<or> (23 = length s \<and> s ! 22 = newline))"
proof -
  have "is_onion_address s \<longleftrightarrow>
     (\<exists>k. 16 \<le> k \<and> k \<le> length s \<and> list_all is_lower_alnum (take k s) \<and> k \<le> 16 \<and>
        k < length s \<and> s ! k \<noteq> newline \<and>
        Suc k < length s \<and> s ! Suc k = CHR ''o'' \<and>
        Suc (Suc k) < length s \<and> s ! Suc (Suc k) = CHR ''n'' \<and>
        Suc (Suc (Suc k)) < length s \<and> s ! Suc (Suc (Suc k)) = CHR ''i'' \<and>
        Suc (Suc (Suc (Suc k))) < length s \<and> s ! Suc (Suc (Suc (Suc k))) = CHR ''o'' \<and>
        Suc (Suc (Suc (Suc (Suc k)))) < length s \<and> s ! Suc (Suc (Suc (Suc (Suc k)))) = CHR ''n'' \<and>
        (Suc (Suc (Suc (Suc (Suc (Suc k))))) = length s \<or>
          (Suc (Suc (Suc (Suc (Suc (Suc (Suc k)))))) = length s \<and>
           s ! Suc (Suc (Suc (Suc (Suc (Suc k))))) = newline)))"
    unfolding is_onion_address_def re_match_def onion_pattern_def
    by (simp only: match_seq.simps list_ex_match_atoms list_ex_match_In option.case
          in_set_onion simp_thms)
  also have "\<dots> \<longleftrightarrow>
     (16 \<le> length s \<and> list_all is_lower_alnum (take 16 s) \<and>
        16 < length s \<and> s ! 16 \<noteq> newline \<and>
        Suc 16 < length s \<and> s ! Suc 16 = CHR ''o'' \<and>
        Suc (Suc 16) < length s \<and> s ! Suc (Suc 16) = CHR ''n'' \<and>
        Suc (Suc (Suc 16)) < length s \<and> s ! Suc (Suc (Suc 16)) = CHR ''i'' \<and>
        Suc (Suc (Suc (Suc 16))) < length s \<and> s ! Suc (Suc (Suc (Suc 16))) = CHR ''o'' \<and>
        Suc (Suc (Suc (Suc (Suc 16)))) < length s \<and> s ! Suc (Suc (Suc (Suc (Suc 16)))) = CHR ''n'' \<and>
        (Suc (Suc (Suc (Suc (Suc (Suc 16))))) = length s \<or>
          (Suc (Suc (Suc (Suc (Suc (Suc (Suc 16)))))) = length s \<and>
           s ! Suc (Suc (Suc (Suc (Suc (Suc 16))))) = newline)))"
    (is "(\<exists>k. ?P k) \<longleftrightarrow> ?Q")
  proof
    assume "\<exists>k. ?P k"
    then obtain k where k: "?P k" ..
    then have "k = 16" by linarith
    with k show ?Q by blast
  next
    assume ?Q
    then have "?P 16" by simp
    then show "\<exists>k. ?P k" ..
  qed
  also have "\<dots> \<longleftrightarrow> 16 \<le> length s \<and> list_all is_lower_alnum (take 16 s) \<and>
     16 < length s \<and> s ! 16 \<noteq> newline \<and>
     17 < length s \<and> s ! 17 = CHR ''o'' \<and> 18 < length s \<and> s ! 18 = CHR ''n'' \<and>
     19 < length s \<and> s ! 19 = CHR ''i'' \<and> 20 < length s \<and> s ! 20 = CHR ''o'' \<and>
     21 < length s \<and> s ! 21 = CHR ''n'' \<and>
     (22 = length s \<or> (23 = length s \<and> s ! 22 = newline))"
    by (simp only: eval_nat_numeral) simp
  finally show ?thesis .
qed

lemma is_onion_address_iff:
  "is_onion_address s \<longleftrightarrow>
     list_all is_lower_alnum (take 16 s) \<and> 16 < length s \<and> s ! 16 \<noteq> newline \<and>
     (drop 17 s = ''onion'' \<or> drop 17 s = ''onion'' @ [newline])"
proof -
  have a: "drop 17 s = ''onion'' \<longleftrightarrow>
     17 < length s \<and> s ! 17 = CHR ''o'' \<and> 18 < length s \<and> s ! 18 = CHR ''n'' \<and>
     19 < length s \<and> s ! 19 = CHR ''i'' \<and> 20 < length s \<and> s ! 20 = CHR ''o'' \<and>
     21 < length s \<and> s ! 21 = CHR ''n'' \<and> length s \<le> 22"
    by (simp add: drop_eq_Cons_iff)
  have b: "drop 17 s = ''onion'' @ [newline] \<longleftrightarrow>
     17 < length s \<and> s ! 17 = CHR ''o'' \<and> 18 < length s \<and> s ! 18 = CHR ''n'' \<and>
     19 < length s \<and> s ! 19 = CHR ''i'' \<and> 20 < length s \<and> s ! 20 = CHR ''o'' \<and>
     21 < length s \<and> s ! 21 = CHR ''n'' \<and> 22 < length s \<and> s ! 22 = newline \<and> length s \<le> 23"
    by (simp add: drop_eq_Cons_iff)
  show ?thesis
    unfolding is_onion_address_unfolded a b by auto
qed

lemma spec_onion_address_iff:
  "spec_onion_address s \<longleftrightarrow> is_onion_address s \<and> s ! 16 = CHR ''.'' \<and> length s = 22"
proof -
  have c: "drop 16 s = ''.onion'' \<longleftrightarrow>
     16 < length s \<and> s ! 16 = CHR ''.'' \<and>
     17 < length s \<and> s ! 17 = CHR ''o'' \<and> 18 < length s \<and> s ! 18 = CHR ''n'' \<and>
     19 < length s \<and> s ! 19 = CHR ''i'' \<and> 20 < length s \<and> s ! 20 = CHR ''o'' \<and>
     21 < length s \<and> s ! 21 = CHR ''n'' \<and> length s \<le> 22"
    by (simp add: drop_eq_Cons_iff)
  have n: "CHR ''.'' \<noteq> newline"
    by (simp add: newline_def)
  show ?thesis
    unfolding spec_onion_address_def is_onion_address_unfolded c using n by auto
qed

text \<open>
  The numeric check of \<^verbatim>\<open>is_valid_hostname\<close> matches a non-empty string of digits and
  dots, with or without a final newline, and each segment may end in a newline. So
  \<^verbatim>\<open>is_valid_hostname\<close> accepts every hostname of the specification, and on strings
  without a newline it is the check of the specification.
\<close>

lemma in_set_numeric:
  "in_set False [Category_Digit, Literal CHR ''.''] = is_digit_or_dot"
  by (rule ext) (simp add: in_set_def is_digit_or_dot_def)

lemma numeric_match_unfolded:
  "re_match False numeric_pattern s \<longleftrightarrow>
     (\<exists>k. 1 \<le> k \<and> k \<le> length s \<and> list_all is_digit_or_dot (take k s) \<and>
          (k = length s \<or> (Suc k = length s \<and> s ! k = newline)))"
  unfolding re_match_def numeric_pattern_def
  by (simp only: match_seq.simps list_ex_match_atoms list_ex_match_In option.case
        in_set_numeric simp_thms)

lemma numeric_match_iff:
  "re_match False numeric_pattern s \<longleftrightarrow>
     (s \<noteq> [] \<and> list_all is_digit_or_dot s) \<or>
     (\<exists>t. t \<noteq> [] \<and> list_all is_digit_or_dot t \<and> s = t @ [newline])"
proof
  assume "re_match False numeric_pattern s"
  then obtain k where k: "1 \<le> k" "k \<le> length s" "list_all is_digit_or_dot (take k s)"
    and stop: "k = length s \<or> (Suc k = length s \<and> s ! k = newline)"
    unfolding numeric_match_unfolded by blast
  from stop show "(s \<noteq> [] \<and> list_all is_digit_or_dot s) \<or>
     (\<exists>t. t \<noteq> [] \<and> list_all is_digit_or_dot t \<and> s = t @ [newline])"
  proof
    assume "k = length s"
    with k show ?thesis by auto
  next
    assume e: "Suc k = length s \<and> s ! k = newline"
    then have "s = take k s @ [newline]"
      by (metis lessI take_Suc_conv_app_nth take_all order_refl)
    moreover from e k have "take k s \<noteq> []" by auto
    ultimately show ?thesis using k by blast
  qed
next
  assume "(s \<noteq> [] \<and> list_all is_digit_or_dot s) \<or>
     (\<exists>t. t \<noteq> [] \<and> list_all is_digit_or_dot t \<and> s = t @ [newline])"
  then show "re_match False numeric_pattern s"
  proof
    assume "s \<noteq> [] \<and> list_all is_digit_or_dot s"
    then have "1 \<le> length s \<and> length s \<le> length s \<and> list_all is_digit_or_dot (take (length s) s) \<and>
          (length s = length s \<or> (Suc (length s) = length s \<and> s ! length s = newline))"
      by (cases s) auto
    then show ?thesis
      unfolding numeric_match_unfolded by blast
  next
    assume "\<exists>t. t \<noteq> [] \<and> list_all is_digit_or_dot t \<and> s = t @ [newline]"
    then obtain t where t: "t \<noteq> []" "list_all is_digit_or_dot t" "s = t @ [newline]"
      by blast
    then have "1 \<le> length t \<and> length t \<le> length s \<and> list_all is_digit_or_dot (take (length t) s) \<and>
          (length t = length s \<or> (Suc (length t) = length s \<and> s ! length t = newline))"
      by (cases t) auto
    then show ?thesis
      unfolding numeric_match_unfolded by blast
  qed
qed

lemma set_split: "(\<Union>x \<in> set (split sep s). set x) = set s - {sep}"
proof (induction s)
  case Nil
  then show ?case by simp
next
  case (Cons c cs)
  then show ?case
    using split_not_Nil [of sep cs] by (cases "split sep cs") auto
qed

lemma newline_not_label_char: "\<not> label_char hostname newline"
  by (simp add: label_char_def is_ascii_alnum_def in_range_def newline_def)

lemma spec_valid_label_no_newline: "spec_valid_label x hostname \<Longrightarrow> newline \<notin> set x"
  using newline_not_label_char by (auto simp: spec_valid_label_def list_all_iff)

lemma is_valid_label_no_newline:
  "newline \<notin> set x \<Longrightarrow> is_valid_label x hostname = spec_valid_label x hostname"
  unfolding is_valid_label_iff by auto

lemma is_valid_hostname_iff:
  "is_valid_hostname s \<longleftrightarrow>
     length s \<le> 255 \<and>
     \<not> (s \<noteq> [] \<and> list_all is_digit_or_dot s) \<and>
     \<not> (\<exists>t. t \<noteq> [] \<and> list_all is_digit_or_dot t \<and> s = t @ [newline]) \<and>
     (\<forall>x \<in> set (split CHR ''.'' s).
        spec_valid_label x True \<or> (\<exists>t. x = t @ [newline] \<and> spec_valid_label t True))"
  unfolding is_valid_hostname_def numeric_match_iff list_all_iff is_valid_label_iff by auto

lemma spec_valid_hostname_accepted:
  assumes "spec_valid_hostname s"
  shows "is_valid_hostname s"
proof -
  from assms have len: "length s \<le> 255" and num: "\<not> list_all is_digit_or_dot s"
    and segs: "\<forall>x \<in> set (split CHR ''.'' s). spec_valid_label x True"
    by (auto simp: spec_valid_hostname_def list_all_iff split: if_splits)
  from segs have "newline \<notin> (\<Union>x \<in> set (split CHR ''.'' s). set x)"
    using spec_valid_label_no_newline by blast
  then have "newline \<notin> set s"
    unfolding set_split by (simp add: newline_def)
  then have "\<not> (\<exists>t. s = t @ [newline])"
    by auto
  with len num segs show ?thesis
    unfolding is_valid_hostname_iff by blast
qed

lemma is_valid_hostname_spec:
  assumes "newline \<notin> set s"
  shows "is_valid_hostname s = spec_valid_hostname s"
proof
  assume v: "is_valid_hostname s"
  from assms have no: "newline \<notin> set x" if "x \<in> set (split CHR ''.'' s)" for x
    using that set_split [of "CHR ''.''" s] by blast
  from v have ne: "s \<noteq> []"
    using empty_hostname_invalid by auto
  from v have len: "length s \<le> 255" and num: "\<not> (s \<noteq> [] \<and> list_all is_digit_or_dot s)"
    and segs: "\<forall>x \<in> set (split CHR ''.'' s).
        spec_valid_label x True \<or> (\<exists>t. x = t @ [newline] \<and> spec_valid_label t True)"
    unfolding is_valid_hostname_iff by blast+
  have "spec_valid_label x True" if x: "x \<in> set (split CHR ''.'' s)" for x
  proof -
    from no [OF x] have "\<not> (\<exists>t. x = t @ [newline])" by auto
    with segs x show ?thesis by blast
  qed
  with ne len num show "spec_valid_hostname s"
    unfolding spec_valid_hostname_def list_all_iff by auto
next
  assume "spec_valid_hostname s"
  then show "is_valid_hostname s"
    by (rule spec_valid_hostname_accepted)
qed

lemma is_valid_label_spec:
  "s = [] \<or> last s \<noteq> newline \<Longrightarrow> is_valid_label s hostname = spec_valid_label s hostname"
  unfolding is_valid_label_iff by auto


section \<open>The blacklist\<close>

text \<open>
  Claim C1 says that a name whose lower-case form is in \<^verbatim>\<open>DOMAIN_BLACKLIST\<close> is always
  refused. The source tests the name as submitted (\<^verbatim>\<open>domain_name_str in ...\<close>) and
  lower-cases it only for the result. So a valid subdomain that is long enough and not
  itself in the blacklist is accepted even when its lower-case form is in the blacklist,
  and the label that is returned is the blacklisted one.
\<close>

theorem blacklist_check_is_case_sensitive:
  assumes "CHR ''.'' \<notin> set s" and "is_valid_hostname s"
    and "MIN_SUBDOMAIN_LENGTH cfg \<le> int (length s)"
    and "lower s \<in> set (DOMAIN_BLACKLIST cfg)" and "s \<notin> set (DOMAIN_BLACKLIST cfg)"
  shows "domain_name cfg s = Inr \<lparr>label = Some (lower s), zone = lower (SUBDOMAIN_HOST cfg)\<rparr>"
proof -
  from assms(2) have ne: "s \<noteq> []"
    using empty_hostname_invalid by auto
  with assms(1) have "last s \<noteq> CHR ''.''"
    using last_in_set by metis
  with ne assms show ?thesis
    by (simp add: domain_name_def Let_def)
qed

text \<open>
  With the blacklist \<^verbatim>\<open>["www", "mail"]\<close>, \<^verbatim>\<open>"www"\<close> is refused and \<^verbatim>\<open>"WWW"\<close> is registered
  as the label \<^verbatim>\<open>"www"\<close>; in the root-domain branch \<^verbatim>\<open>"evil.com"\<close> is refused and
  \<^verbatim>\<open>"Evil.com"\<close> becomes the zone \<^verbatim>\<open>"evil.com"\<close>.
\<close>

theorem blacklist_check_is_case_sensitive_witness:
  "CHR ''.'' \<notin> set ''WWW'' \<and> is_valid_hostname ''WWW'' \<and>
   MIN_SUBDOMAIN_LENGTH example_config \<le> int (length ''WWW'') \<and>
   lower ''WWW'' \<in> set (DOMAIN_BLACKLIST example_config) \<and>
   ''WWW'' \<notin> set (DOMAIN_BLACKLIST example_config) \<and>
   domain_name example_config ''WWW'' = Inr \<lparr>label = Some ''www'', zone = ''example.com''\<rparr> \<and>
   domain_name example_config ''www'' = Inl (ValueError ''This subdomain is not allowed'') \<and>
   domain_name (open_config\<lparr>DOMAIN_BLACKLIST := [''evil.com'']\<rparr>) ''evil.com''
     = Inl (ValueError ''The domain is not allowed'') \<and>
   domain_name (open_config\<lparr>DOMAIN_BLACKLIST := [''evil.com'']\<rparr>) ''Evil.com''
     = Inr \<lparr>label = None, zone = ''evil.com''\<rparr>"
proof -
  have d: "CHR ''.'' \<notin> set ''WWW''" by simp
  have v: "is_valid_hostname ''WWW''" by code_simp
  have m: "MIN_SUBDOMAIN_LENGTH example_config \<le> int (length ''WWW'')"
    by (simp add: example_config_simps)
  have lw: "lower ''WWW'' = ''www''" by code_simp
  have lh: "lower (SUBDOMAIN_HOST example_config) = ''example.com''" by code_simp
  have b: "lower ''WWW'' \<in> set (DOMAIN_BLACKLIST example_config)"
    by (simp add: lw example_config_simps)
  have n: "''WWW'' \<notin> set (DOMAIN_BLACKLIST example_config)"
    by (simp add: example_config_simps)
  from blacklist_check_is_case_sensitive [OF d v m b n] lw lh
  have r: "domain_name example_config ''WWW'' = Inr \<lparr>label = Some ''www'', zone = ''example.com''\<rparr>"
    by simp
  have r2: "domain_name example_config ''www'' = Inl (ValueError ''This subdomain is not allowed'')"
    by code_simp
  have r3: "domain_name (open_config\<lparr>DOMAIN_BLACKLIST := [''evil.com'']\<rparr>) ''evil.com''
     = Inl (ValueError ''The domain is not allowed'')"
    by code_simp
  have r4: "domain_name (open_config\<lparr>DOMAIN_BLACKLIST := [''evil.com'']\<rparr>) ''Evil.com''
     = Inr \<lparr>label = None, zone = ''evil.com''\<rparr>"
    by code_simp
  from d v m b n r r2 r3 r4 show ?thesis by blast
qed


section \<open>The two shapes of a result\<close>

text \<open>
  Claim C2, as stated, gives the zone of a root-domain result as the lower-cased
  submitted name. A submission with a trailing dot is a counterexample: the dot is
  stripped before the zone is built, so \<^verbatim>\<open>"foo.com."\<close> yields the zone \<^verbatim>\<open>"foo.com"\<close>, which
  is not the lower-cased submission.
\<close>

theorem root_zone_drops_trailing_dot:
  "domain_name open_config ''foo.com.'' = Inr \<lparr>label = None, zone = ''foo.com''\<rparr> \<and>
   lower ''foo.com.'' \<noteq> ''foo.com''"
  by code_simp

text \<open>
  Claim C2, amended. Whenever \<^verbatim>\<open>domain_name\<close> returns a result, the submitted string is
  not empty and the result has one of two shapes, decided by the dot in the submitted
  string: without a dot the label is the lower-cased string and the zone is the
  lower-cased \<^verbatim>\<open>SUBDOMAIN_HOST\<close>; with a dot the label is null and the zone is the
  lower-cased string with one trailing dot, if there is one, taken off.
\<close>

theorem domain_name_shape:
  assumes "domain_name cfg s = Inr r"
  shows "s \<noteq> [] \<and>
         (if CHR ''.'' \<notin> set s
          then label r = Some (lower s) \<and> zone r = lower (SUBDOMAIN_HOST cfg)
          else label r = None \<and> zone r = lower (if last s = CHR ''.'' then butlast s else s))"
proof -
  from assms have ne: "s \<noteq> []"
    by (auto simp: domain_name_def)
  show ?thesis
  proof (cases "CHR ''.'' \<in> set s")
    case True
    with assms ne show ?thesis
      by (auto simp: domain_name_def Let_def split: if_splits)
  next
    case False
    with ne have "last s \<noteq> CHR ''.''"
      using last_in_set by metis
    with assms ne False show ?thesis
      by (auto simp: domain_name_def Let_def split: if_splits)
  qed
qed

theorem domain_name_shape_witness:
  "domain_name example_config ''MyApp'' = Inr \<lparr>label = Some ''myapp'', zone = ''example.com''\<rparr> \<and>
   label \<lparr>label = Some ''myapp'', zone = ''example.com''\<rparr> = Some (lower ''MyApp'') \<and>
   zone \<lparr>label = Some ''myapp'', zone = ''example.com''\<rparr> = lower (SUBDOMAIN_HOST example_config) \<and>
   domain_name open_config ''Foo.com.'' = Inr \<lparr>label = None, zone = ''foo.com''\<rparr> \<and>
   label \<lparr>label = None, zone = ''foo.com''\<rparr> = None \<and>
   zone \<lparr>label = None, zone = ''foo.com''\<rparr> = lower ''Foo.com''"
proof -
  have a: "domain_name example_config ''MyApp'' = Inr \<lparr>label = Some ''myapp'', zone = ''example.com''\<rparr>"
    by code_simp
  have b: "domain_name open_config ''Foo.com.'' = Inr \<lparr>label = None, zone = ''foo.com''\<rparr>"
    by code_simp
  from domain_name_shape [OF a]
  have a': "label \<lparr>label = Some ''myapp'', zone = ''example.com''\<rparr> = Some (lower ''MyApp'') \<and>
            zone \<lparr>label = Some ''myapp'', zone = ''example.com''\<rparr> = lower (SUBDOMAIN_HOST example_config)"
    by simp
  from domain_name_shape [OF b]
  have b': "label \<lparr>label = None, zone = ''foo.com''\<rparr> = None \<and>
            zone \<lparr>label = None, zone = ''foo.com''\<rparr> = lower ''Foo.com''"
    by simp
  from a b a' b' show ?thesis by blast
qed


section \<open>Closed registration of full domains\<close>

text \<open>
  Claim C3. Let \<open>s\<close> be a valid hostname that contains a dot and does not start with
  \<^verbatim>\<open>www.\<close>. When \<^verbatim>\<open>FQDN_REGISTRATION_CLOSED\<close> is true, \<^verbatim>\<open>domain_name\<close> fails on \<open>s\<close> with
  the registration-closed error; when it is false and \<open>s\<close> is not in the blacklist, the
  call succeeds with a null label and the lower-cased \<open>s\<close> as zone (not in the
  blacklist: \<open>s\<close> is not a member of it, or, for a blacklist of lower-case names as the
  configuration is meant to hold, the lower-cased \<open>s\<close> is not a member of it).

  The registration-closed error is a failure of its own kind. For every configuration
  and every input, \<^verbatim>\<open>domain_name\<close> fails with it exactly when registration is closed and
  the input is a syntactically valid root-domain submission: it has a dot and, with one
  trailing dot taken off, is a valid hostname that still has a dot and does not start
  with \<^verbatim>\<open>www.\<close>. Every other failure (the empty name, the invalid or too short
  subdomain, the blacklisted name, the invalid domain name, the \<^verbatim>\<open>www.\<close> prefix) is
  another error, whatever name or minimum its message holds.
\<close>

theorem closed_registration_refuses_root_domains:
  assumes "is_valid_hostname s" and "CHR ''.'' \<in> set s" and "\<not> startswith s ''www.''"
  shows "(FQDN_REGISTRATION_CLOSED cfg \<longrightarrow> domain_name cfg s = Inl registration_closed) \<and>
         (\<not> FQDN_REGISTRATION_CLOSED cfg \<longrightarrow> s \<notin> set (DOMAIN_BLACKLIST cfg) \<longrightarrow>
            domain_name cfg s = Inr \<lparr>label = None, zone = lower s\<rparr>) \<and>
         (\<not> FQDN_REGISTRATION_CLOSED cfg \<longrightarrow> (\<forall>b \<in> set (DOMAIN_BLACKLIST cfg). lower b = b) \<longrightarrow>
            lower s \<notin> set (DOMAIN_BLACKLIST cfg) \<longrightarrow>
            domain_name cfg s = Inr \<lparr>label = None, zone = lower s\<rparr>) \<and>
         (\<forall>cfg' t. domain_name cfg' t = Inl registration_closed \<longleftrightarrow>
            FQDN_REGISTRATION_CLOSED cfg' \<and> t \<noteq> [] \<and> CHR ''.'' \<in> set t \<and>
            is_valid_hostname (if last t = CHR ''.'' then butlast t else t) \<and>
            CHR ''.'' \<in> set (if last t = CHR ''.'' then butlast t else t) \<and>
            \<not> startswith (if last t = CHR ''.'' then butlast t else t) ''www.'') \<and>
         (\<forall>name minimum.
            registration_closed \<noteq> ValueError ''You must specify a domain name'' \<and>
            registration_closed \<noteq> ValueError (name @ '' is not a valid sub-domain name.'') \<and>
            registration_closed \<noteq> ValueError (''The subdomain must be at least ''
                                       @ str_int minimum @ '' characters long.'') \<and>
            registration_closed \<noteq> ValueError ''This subdomain is not allowed'' \<and>
            registration_closed \<noteq> ValueError (name @ '' is not a valid domain name'') \<and>
            registration_closed \<noteq> ValueError ''The domain name should not include the www. label'' \<and>
            registration_closed \<noteq> ValueError ''The domain is not allowed'')"
proof -
  from assms(2) have ne: "s \<noteq> []" by auto
  with assms(1) have "last s \<noteq> CHR ''.''"
    by (rule valid_hostname_last)
  with ne assms have branch:
    "(FQDN_REGISTRATION_CLOSED cfg \<longrightarrow> domain_name cfg s = Inl registration_closed) \<and>
     (\<not> FQDN_REGISTRATION_CLOSED cfg \<longrightarrow> s \<notin> set (DOMAIN_BLACKLIST cfg) \<longrightarrow>
        domain_name cfg s = Inr \<lparr>label = None, zone = lower s\<rparr>)"
    by (simp add: domain_name_def Let_def registration_closed_def)
  have lowercase: "s \<notin> set (DOMAIN_BLACKLIST cfg)"
    if "\<forall>b \<in> set (DOMAIN_BLACKLIST cfg). lower b = b" and "lower s \<notin> set (DOMAIN_BLACKLIST cfg)"
    using that by metis
  have kind: "domain_name cfg' t = Inl registration_closed \<longleftrightarrow>
            FQDN_REGISTRATION_CLOSED cfg' \<and> t \<noteq> [] \<and> CHR ''.'' \<in> set t \<and>
            is_valid_hostname (if last t = CHR ''.'' then butlast t else t) \<and>
            CHR ''.'' \<in> set (if last t = CHR ''.'' then butlast t else t) \<and>
            \<not> startswith (if last t = CHR ''.'' then butlast t else t) ''www.''" for cfg' t
  proof (cases "t = []")
    case True
    then show ?thesis
      by (simp add: domain_name_def registration_closed_def)
  next
    case False
    then show ?thesis
      using not_closed_message_sub not_closed_message_dom
      by (simp add: domain_name_def Let_def registration_closed_def)
  qed
  have others: "registration_closed \<noteq> ValueError ''You must specify a domain name'' \<and>
            registration_closed \<noteq> ValueError (name @ '' is not a valid sub-domain name.'') \<and>
            registration_closed \<noteq> ValueError (''The subdomain must be at least ''
                                       @ str_int minimum @ '' characters long.'') \<and>
            registration_closed \<noteq> ValueError ''This subdomain is not allowed'' \<and>
            registration_closed \<noteq> ValueError (name @ '' is not a valid domain name'') \<and>
            registration_closed \<noteq> ValueError ''The domain name should not include the www. label'' \<and>
            registration_closed \<noteq> ValueError ''The domain is not allowed''" for name minimum
    using not_closed_message_sub [of name] not_closed_message_dom [of name]
    by (simp add: registration_closed_def)
  from branch lowercase kind others show ?thesis by blast
qed

theorem closed_registration_refuses_root_domains_witness:
  "is_valid_hostname ''foo.org'' \<and> CHR ''.'' \<in> set ''foo.org'' \<and> \<not> startswith ''foo.org'' ''www.'' \<and>
   FQDN_REGISTRATION_CLOSED example_config \<and>
   domain_name example_config ''foo.org'' = Inl registration_closed \<and>
   \<not> FQDN_REGISTRATION_CLOSED open_config \<and> ''foo.org'' \<notin> set (DOMAIN_BLACKLIST open_config) \<and>
   domain_name open_config ''foo.org'' = Inr \<lparr>label = None, zone = ''foo.org''\<rparr> \<and>
   startswith ''www.foo.org'' ''www.'' \<and>
   domain_name example_config ''www.foo.org''
     = Inl (ValueError ''The domain name should not include the www. label'') \<and>
   domain_name example_config ''www.foo.org'' \<noteq> Inl registration_closed \<and>
   \<not> is_valid_hostname ''a..b'' \<and>
   domain_name example_config ''a..b'' = Inl (ValueError ''a..b is not a valid domain name'') \<and>
   domain_name example_config ''a..b'' \<noteq> Inl registration_closed \<and>
   domain_name example_config ''foo.org.'' = Inl registration_closed"
proof -
  have v: "is_valid_hostname ''foo.org''" by code_simp
  have d: "CHR ''.'' \<in> set ''foo.org''" by simp
  have w: "\<not> startswith ''foo.org'' ''www.''" by (simp add: startswith_def)
  have c: "FQDN_REGISTRATION_CLOSED example_config" by (simp add: example_config_simps)
  have o: "\<not> FQDN_REGISTRATION_CLOSED open_config" by (simp add: example_config_simps)
  have b: "''foo.org'' \<notin> set (DOMAIN_BLACKLIST open_config)" by (simp add: example_config_simps)
  have l: "lower ''foo.org'' = ''foo.org''" by code_simp
  note inst = closed_registration_refuses_root_domains [OF v d w]
  from inst [of example_config] c
  have r1: "domain_name example_config ''foo.org'' = Inl registration_closed" by blast
  from inst [of open_config] o b l
  have r2: "domain_name open_config ''foo.org'' = Inr \<lparr>label = None, zone = ''foo.org''\<rparr>" by simp
  have w3: "startswith ''www.foo.org'' ''www.''" by (simp add: startswith_def)
  have r3: "domain_name example_config ''www.foo.org''
     = Inl (ValueError ''The domain name should not include the www. label'')" by code_simp
  have k: "domain_name cfg' t = Inl registration_closed \<longleftrightarrow>
            FQDN_REGISTRATION_CLOSED cfg' \<and> t \<noteq> [] \<and> CHR ''.'' \<in> set t \<and>
            is_valid_hostname (if last t = CHR ''.'' then butlast t else t) \<and>
            CHR ''.'' \<in> set (if last t = CHR ''.'' then butlast t else t) \<and>
            \<not> startswith (if last t = CHR ''.'' then butlast t else t) ''www.''" for cfg' t
    using inst [of example_config] by blast
  from k [of example_config "''www.foo.org''"] w3
  have n3: "domain_name example_config ''www.foo.org'' \<noteq> Inl registration_closed" by simp
  have v4: "\<not> is_valid_hostname ''a..b''" by code_simp
  have r4: "domain_name example_config ''a..b'' = Inl (ValueError ''a..b is not a valid domain name'')"
    by code_simp
  from k [of example_config "''a..b''"] v4
  have n4: "domain_name example_config ''a..b'' \<noteq> Inl registration_closed" by simp
  from k [of example_config "''foo.org.''"] v d w c
  have r5: "domain_name example_config ''foo.org.'' = Inl registration_closed" by simp
  from v d w c r1 o b r2 w3 r3 n3 v4 r4 n4 r5 show ?thesis by blast
qed


section \<open>The minimum length of a subdomain\<close>

text \<open>
  Claim C4, as stated, promises the minimum-length message for every label shorter than
  \<^verbatim>\<open>MIN_SUBDOMAIN_LENGTH\<close> and success for every label of exactly that many valid
  characters. With the minimum 3 and the blacklist \<^verbatim>\<open>["www", "mail"]\<close>: \<^verbatim>\<open>"123"\<close> has three
  valid characters and is refused as not a valid subdomain (a name of digits only is
  taken for an IP address); \<^verbatim>\<open>"www"\<close> has three valid characters and is refused as
  blacklisted; \<^verbatim>\<open>"-"\<close> is shorter than the minimum and is refused with the message for an
  invalid name, which does not state the minimum.
\<close>

theorem min_length_label_refused:
  "int (length ''123'') = MIN_SUBDOMAIN_LENGTH open_config \<and>
   list_all (in_set True (label_items True)) ''123'' \<and> ''123'' \<notin> set (DOMAIN_BLACKLIST open_config) \<and>
   domain_name open_config ''123'' = Inl (ValueError ''123 is not a valid sub-domain name.'') \<and>
   int (length ''www'') = MIN_SUBDOMAIN_LENGTH open_config \<and>
   list_all (in_set True (label_items True)) ''www'' \<and>
   domain_name open_config ''www'' = Inl (ValueError ''This subdomain is not allowed'') \<and>
   int (length ''-'') < MIN_SUBDOMAIN_LENGTH open_config \<and>
   domain_name open_config ''-'' = Inl (ValueError ''- is not a valid sub-domain name.'')"
  by code_simp

text \<open>
  Claim C4, amended. For every string without a dot that passes the hostname syntax
  check: if it is shorter than \<^verbatim>\<open>MIN_SUBDOMAIN_LENGTH\<close>, \<^verbatim>\<open>domain_name\<close> fails with the
  message that states the configured minimum; if its length is exactly the minimum and
  it is not in the blacklist, \<^verbatim>\<open>domain_name\<close> returns the subdomain-shape result.
\<close>

theorem subdomain_min_length:
  assumes "CHR ''.'' \<notin> set s" and "is_valid_hostname s"
  shows "(int (length s) < MIN_SUBDOMAIN_LENGTH cfg \<longrightarrow>
            domain_name cfg s =
              Inl (ValueError (''The subdomain must be at least ''
                     @ str_int (MIN_SUBDOMAIN_LENGTH cfg) @ '' characters long.''))) \<and>
         (int (length s) = MIN_SUBDOMAIN_LENGTH cfg \<longrightarrow> s \<notin> set (DOMAIN_BLACKLIST cfg) \<longrightarrow>
            domain_name cfg s =
              Inr \<lparr>label = Some (lower s), zone = lower (SUBDOMAIN_HOST cfg)\<rparr>)"
proof -
  from assms(2) have ne: "s \<noteq> []"
    using empty_hostname_invalid by auto
  with assms(1) have "last s \<noteq> CHR ''.''"
    using last_in_set by metis
  with ne assms show ?thesis
    by (simp add: domain_name_def Let_def)
qed

theorem subdomain_min_length_witness:
  "CHR ''.'' \<notin> set ''ab'' \<and> is_valid_hostname ''ab'' \<and>
   int (length ''ab'') < MIN_SUBDOMAIN_LENGTH example_config \<and>
   domain_name example_config ''ab'' =
     Inl (ValueError ''The subdomain must be at least 3 characters long.'') \<and>
   CHR ''.'' \<notin> set ''App'' \<and> is_valid_hostname ''App'' \<and>
   int (length ''App'') = MIN_SUBDOMAIN_LENGTH example_config \<and>
   ''App'' \<notin> set (DOMAIN_BLACKLIST example_config) \<and>
   domain_name example_config ''App'' = Inr \<lparr>label = Some ''app'', zone = ''example.com''\<rparr>"
proof -
  have d1: "CHR ''.'' \<notin> set ''ab''" by simp
  have v1: "is_valid_hostname ''ab''" by code_simp
  have l1: "int (length ''ab'') < MIN_SUBDOMAIN_LENGTH example_config"
    by (simp add: example_config_simps)
  have m: "''The subdomain must be at least '' @ str_int (MIN_SUBDOMAIN_LENGTH example_config)
             @ '' characters long.'' = ''The subdomain must be at least 3 characters long.''"
    by code_simp
  from subdomain_min_length [OF d1 v1, of example_config] l1 m
  have r1: "domain_name example_config ''ab'' =
     Inl (ValueError ''The subdomain must be at least 3 characters long.'')"
    by simp
  have d2: "CHR ''.'' \<notin> set ''App''" by simp
  have v2: "is_valid_hostname ''App''" by code_simp
  have l2: "int (length ''App'') = MIN_SUBDOMAIN_LENGTH example_config"
    by (simp add: example_config_simps)
  have b2: "''App'' \<notin> set (DOMAIN_BLACKLIST example_config)"
    by (simp add: example_config_simps)
  have e2: "lower ''App'' = ''app''" "lower (SUBDOMAIN_HOST example_config) = ''example.com''"
    by code_simp+
  from subdomain_min_length [OF d2 v2, of example_config] l2 b2 e2
  have r2: "domain_name example_config ''App'' = Inr \<lparr>label = Some ''app'', zone = ''example.com''\<rparr>"
    by simp
  from d1 v1 l1 r1 d2 v2 l2 b2 r2 show ?thesis by blast
qed


section \<open>Labels, hostnames and onion addresses\<close>

text \<open>
  Claim C5 says that \<^verbatim>\<open>is_valid_label\<close> accepts a string exactly when it has 1 to 63
  characters of the set, none of them a hyphen at either end (\<open>spec_valid_label\<close>). The
  pattern ends in \<^verbatim>\<open>$\<close>, which also matches before a final newline: the two-character
  string of \<^verbatim>\<open>a\<close> and a newline is accepted, in both modes, though the newline is not in
  the set. By \<open>is_valid_label_iff\<close> these are the only strings on which the validator
  and the claim differ.
\<close>

theorem label_accepts_trailing_newline:
  "is_valid_label [CHR ''a'', newline] False \<and> \<not> spec_valid_label [CHR ''a'', newline] False \<and>
   is_valid_label [CHR ''a'', newline] True \<and> \<not> spec_valid_label [CHR ''a'', newline] True \<and>
   \<not> label_char False newline \<and> \<not> in_set True (label_items False) newline"
  by code_simp

text \<open>
  Claim C6 says that a hostname of at most 255 characters that does not consist of
  digits and dots only is valid exactly when each of its segments is a valid label in
  hostname mode (\<open>spec_valid_hostname\<close>, with the label rule of the specification).
  \<^verbatim>\<open>is_valid_hostname\<close> accepts the string of \<^verbatim>\<open>a\<close> and a newline, and that string followed
  by \<^verbatim>\<open>.com\<close>: the segment that ends in a newline passes \<^verbatim>\<open>is_valid_label\<close>, whose
  pattern ends in \<^verbatim>\<open>$\<close>, and it is no label of the specification. The two examples of the
  claim evaluate as it says, and by \<open>is_valid_hostname_spec\<close> the validator is the one of
  the claim on every string without a newline.
\<close>

theorem hostname_accepts_trailing_newline:
  "is_valid_hostname [CHR ''a'', newline] \<and> \<not> spec_valid_hostname [CHR ''a'', newline] \<and>
   is_valid_hostname ([CHR ''a'', newline] @ ''.com'') \<and>
   \<not> spec_valid_hostname ([CHR ''a'', newline] @ ''.com'') \<and>
   \<not> is_valid_hostname ''192.168.1.1'' \<and> \<not> spec_valid_hostname ''192.168.1.1'' \<and>
   is_valid_hostname ''my-site.example.com'' \<and> spec_valid_hostname ''my-site.example.com''"
  by code_simp

text \<open>
  Claim C7 says that \<^verbatim>\<open>is_onion_address\<close> accepts exactly sixteen lower-case
  alphanumeric characters followed by the literal \<^verbatim>\<open>.onion\<close> (\<open>spec_onion_address\<close>).
  The dot of the pattern is not escaped and matches any character but a newline, and the
  final \<^verbatim>\<open>$\<close> matches before a final newline: \<^verbatim>\<open>abcdefghij123456xonion\<close> is accepted,
  and so is a valid address followed by a newline (\<open>is_onion_address_iff\<close> lists all
  that is accepted). The three examples of the claim evaluate as it says.
\<close>

theorem onion_dot_matches_any_character:
  "is_onion_address ''abcdefghij123456xonion'' \<and>
   \<not> spec_onion_address ''abcdefghij123456xonion'' \<and>
   is_onion_address (''abcdefghij123456.onion'' @ [newline]) \<and>
   \<not> spec_onion_address (''abcdefghij123456.onion'' @ [newline]) \<and>
   is_onion_address ''abcdefghij123456.onion'' \<and>
   \<not> is_onion_address ''ABCDEFGHIJ123456.onion'' \<and>
   \<not> is_onion_address ''abcdefghijklmnopqrstuvwxyz234567abcdefghijklmnopqrstuvwx.onion''"
  by code_simp


section \<open>Public IP addresses\<close>

text \<open>
  Claim C8. For every string: when \<^verbatim>\<open>ipaddress.ip_address\<close> fails to parse it,
  \<^verbatim>\<open>ip_address\<close> fails with that \<^verbatim>\<open>ValueError\<close>; when the parsed address is private,
  \<^verbatim>\<open>ip_address\<close> fails with the message \<^verbatim>\<open>Only public IP addresses are valid\<close>; otherwise
  it returns the address. \<^verbatim>\<open>10.0.0.5\<close>, \<^verbatim>\<open>127.0.0.1\<close> and \<^verbatim>\<open>fe80::1\<close> parse and are refused
  as private, \<^verbatim>\<open>8.8.8.8\<close> is returned.
\<close>

theorem ip_address_public_only:
  "(\<forall>e. ipaddress_ip_address s = Inl e \<longrightarrow> ip_address s = Inl e) \<and>
   (\<forall>a. ipaddress_ip_address s = Inr a \<longrightarrow>
      (is_private a \<longrightarrow> ip_address s = Inl (ValueError ''Only public IP addresses are valid'')) \<and>
      (\<not> is_private a \<longrightarrow> ip_address s = Inr a)) \<and>
   ipaddress_ip_address ''10.0.0.5'' = Inr (IPv4Address (ipv4 10 0 0 5)) \<and>
   ip_address ''10.0.0.5'' = Inl (ValueError ''Only public IP addresses are valid'') \<and>
   ipaddress_ip_address ''127.0.0.1'' = Inr (IPv4Address (ipv4 127 0 0 1)) \<and>
   ip_address ''127.0.0.1'' = Inl (ValueError ''Only public IP addresses are valid'') \<and>
   ipaddress_ip_address ''fe80::1'' = Inr (IPv6Address (ipv6 [0xfe80, 0, 0, 0, 0, 0, 0, 1]) None) \<and>
   ip_address ''fe80::1'' = Inl (ValueError ''Only public IP addresses are valid'') \<and>
   ip_address ''8.8.8.8'' = Inr (IPv4Address (ipv4 8 8 8 8))"
proof -
  have g: "(\<forall>e. ipaddress_ip_address s = Inl e \<longrightarrow> ip_address s = Inl e) \<and>
   (\<forall>a. ipaddress_ip_address s = Inr a \<longrightarrow>
      (is_private a \<longrightarrow> ip_address s = Inl (ValueError ''Only public IP addresses are valid'')) \<and>
      (\<not> is_private a \<longrightarrow> ip_address s = Inr a))"
    by (simp add: ip_address_def)
  have p1: "ipaddress_ip_address ''10.0.0.5'' = Inr (IPv4Address (ipv4 10 0 0 5))" by code_simp
  have r1: "ip_address ''10.0.0.5'' = Inl (ValueError ''Only public IP addresses are valid'')" by code_simp
  have p2: "ipaddress_ip_address ''127.0.0.1'' = Inr (IPv4Address (ipv4 127 0 0 1))" by code_simp
  have r2: "ip_address ''127.0.0.1'' = Inl (ValueError ''Only public IP addresses are valid'')" by code_simp
  have p3: "ipaddress_ip_address ''fe80::1'' = Inr (IPv6Address (ipv6 [0xfe80, 0, 0, 0, 0, 0, 0, 1]) None)" by code_simp
  have r3: "ip_address ''fe80::1'' = Inl (ValueError ''Only public IP addresses are valid'')" by code_simp
  have r4: "ip_address ''8.8.8.8'' = Inr (IPv4Address (ipv4 8 8 8 8))" by code_simp
  from g p1 r1 p2 r2 p3 r3 r4 show ?thesis by blast
qed

theorem ip_address_public_only_witness:
  "ipaddress_ip_address ''192.168.1.20'' = Inr (IPv4Address (ipv4 192 168 1 20)) \<and>
   is_private (IPv4Address (ipv4 192 168 1 20)) \<and>
   ip_address ''192.168.1.20'' = Inl (ValueError ''Only public IP addresses are valid'') \<and>
   ipaddress_ip_address ''2606:4700:4700::1111''
     = Inr (IPv6Address (ipv6 [0x2606, 0x4700, 0x4700, 0, 0, 0, 0, 0x1111]) None) \<and>
   \<not> is_private (IPv6Address (ipv6 [0x2606, 0x4700, 0x4700, 0, 0, 0, 0, 0x1111]) None) \<and>
   ip_address ''2606:4700:4700::1111''
     = Inr (IPv6Address (ipv6 [0x2606, 0x4700, 0x4700, 0, 0, 0, 0, 0x1111]) None) \<and>
   ipaddress_ip_address ''8.8.8''
     = Inl (ValueError (repr ''8.8.8'' @ '' does not appear to be an IPv4 or IPv6 address'')) \<and>
   ip_address ''8.8.8''
     = Inl (ValueError (repr ''8.8.8'' @ '' does not appear to be an IPv4 or IPv6 address''))"
proof -
  have p1: "ipaddress_ip_address ''192.168.1.20'' = Inr (IPv4Address (ipv4 192 168 1 20))"
    by code_simp
  have v1: "is_private (IPv4Address (ipv4 192 168 1 20))" by code_simp
  from ip_address_public_only [of "''192.168.1.20''"] p1 v1
  have r1: "ip_address ''192.168.1.20'' = Inl (ValueError ''Only public IP addresses are valid'')"
    by blast
  have p2: "ipaddress_ip_address ''2606:4700:4700::1111''
     = Inr (IPv6Address (ipv6 [0x2606, 0x4700, 0x4700, 0, 0, 0, 0, 0x1111]) None)"
    by code_simp
  have v2: "\<not> is_private (IPv6Address (ipv6 [0x2606, 0x4700, 0x4700, 0, 0, 0, 0, 0x1111]) None)"
    by code_simp
  from ip_address_public_only [of "''2606:4700:4700::1111''"] p2 v2
  have r2: "ip_address ''2606:4700:4700::1111''
     = Inr (IPv6Address (ipv6 [0x2606, 0x4700, 0x4700, 0, 0, 0, 0, 0x1111]) None)"
    by blast
  have p3: "ipaddress_ip_address ''8.8.8''
     = Inl (ValueError (repr ''8.8.8'' @ '' does not appear to be an IPv4 or IPv6 address''))"
    by code_simp
  from ip_address_public_only [of "''8.8.8''"] p3
  have r3: "ip_address ''8.8.8''
     = Inl (ValueError (repr ''8.8.8'' @ '' does not appear to be an IPv4 or IPv6 address''))"
    by blast
  from p1 v1 r1 p2 v2 r2 p3 r3 show ?thesis by blast
qed


section \<open>DNS record types\<close>




section \<open>A bare label with a trailing dot\<close>

text \<open>
  Claim C10. For every string \<open>s\<close> without a dot, \<^verbatim>\<open>domain_name\<close> refuses \<open>s\<close> followed
  by one dot with the error of the root-domain branch, whatever the configuration and
  whether or not \<open>s\<close> alone is accepted as a subdomain: the dot makes the submission a
  root-domain one, it is stripped, and what is left has no dot.
\<close>

theorem bare_label_with_trailing_dot_refused:
  "CHR ''.'' \<notin> set s \<Longrightarrow>
     domain_name cfg (s @ ''.'') = Inl (ValueError (s @ '' is not a valid domain name''))"
  by (simp add: domain_name_def Let_def)

theorem bare_label_with_trailing_dot_refused_witness:
  "CHR ''.'' \<notin> set ''myapp'' \<and>
   domain_name example_config ''myapp'' = Inr \<lparr>label = Some ''myapp'', zone = ''example.com''\<rparr> \<and>
   domain_name example_config ''myapp.'' = Inl (ValueError ''myapp is not a valid domain name'')"
proof -
  have h: "CHR ''.'' \<notin> set ''myapp''" by simp
  have a: "domain_name example_config ''myapp'' = Inr \<lparr>label = Some ''myapp'', zone = ''example.com''\<rparr>"
    by code_simp
  have b: "domain_name example_config ''myapp.'' = Inl (ValueError ''myapp is not a valid domain name'')"
    using bare_label_with_trailing_dot_refused [OF h, of example_config] by simp
  from h a b show ?thesis by blast
qed

end
